theory Spec2Isabelle
  imports
    Complex_Main
    "HOL-Library.Char_ord"
    "HOL-Library.List_Lexorder"
    "HOL-Library.Product_Lexorder"
    "HOL-Library.Multiset"
begin

section \<open>Tables\<close>

text \<open>
  The dashboard of \<^verbatim>\<open>src/app.py\<close> is one script that pushes a pandas DataFrame through
  a fixed sequence of library calls. The model follows the script line by line; each
  pandas call used by the script is a HOL function of the same name.

  A cell is what \<^verbatim>\<open>pd.read_excel\<close> puts into a DataFrame: nothing (NaN, None, NaT),
  a number, a text, or a point in time. Numbers are exact rationals: the binary
  rounding, the 64-bit ranges and the IEEE special values of the numeric columns are
  not part of the model. A point in time is a count of nanoseconds since the epoch, the
  resolution of \<^verbatim>\<open>datetime64[ns]\<close>.

  A frame is the DataFrame after the column labels have been normalised (lines 88 to
  104): the ordered list of its column labels, and its rows, each a dictionary from
  label to cell. Labels are the keys of the rows, so a frame has one column per label.
\<close>

datatype cell = Null | Num rat | Str string | Stamp int

type_synonym row = "string \<rightharpoonup> cell"

record frame =
  labels :: "string list"
  rows :: "row list"

datatype error = KeyError "string list" | TypeError

definition bind_err :: "error + 'a \<Rightarrow> ('a \<Rightarrow> error + 'b) \<Rightarrow> error + 'b" where
  "bind_err m f = (case m of Inl e \<Rightarrow> Inl e | Inr x \<Rightarrow> f x)"

definition cell_of :: "row \<Rightarrow> string \<Rightarrow> cell" where
  "cell_of r c = (case r c of None \<Rightarrow> Null | Some v \<Rightarrow> v)"

definition column :: "frame \<Rightarrow> string \<Rightarrow> cell list" where
  "column df c = map (\<lambda>r. cell_of r c) (rows df)"

text \<open>\<^verbatim>\<open>df.get(c)\<close>: the column, or None when the frame has no such label.\<close>

definition get :: "frame \<Rightarrow> string \<Rightarrow> cell list option" where
  "get df c = (if c \<in> set (labels df) then Some (column df c) else None)"

text \<open>\<^verbatim>\<open>df[c]\<close>: the column, or KeyError when the frame has no such label.\<close>

definition getitem :: "frame \<Rightarrow> string \<Rightarrow> error + cell list" where
  "getitem df c = (if c \<in> set (labels df) then Inr (column df c) else Inl (KeyError [c]))"

text \<open>
  The right-hand side of \<^verbatim>\<open>df[c] = ...\<close> is a Series (one cell per row) or a scalar,
  which pandas repeats in every row. An existing column keeps its place; a new one is
  appended.
\<close>

datatype series = Scalar cell | Series "cell list"

definition setitem :: "frame \<Rightarrow> string \<Rightarrow> series \<Rightarrow> frame" where
  "setitem df c s =
     \<lparr>labels = (if c \<in> set (labels df) then labels df else labels df @ [c]),
      rows = (case s of
                Scalar v \<Rightarrow> map (\<lambda>r. r(c \<mapsto> v)) (rows df)
              | Series vs \<Rightarrow> map2 (\<lambda>r v. r(c \<mapsto> v)) (rows df) vs)\<rparr>"

section \<open>Normalizer: lines 107 to 118\<close>

text \<open>
  How pandas reads a text as a date or as a number is not in the repository, so the two
  readers are parameters of the model. \<open>parse_datetime\<close> sees the whole column as well
  as the cell, because pandas infers one date format per column. With
  \<^verbatim>\<open>errors="coerce"\<close> a cell that cannot be read becomes null.
\<close>

record coercion =
  parse_datetime :: "cell list \<Rightarrow> cell \<Rightarrow> int option"
  parse_numeric :: "cell \<Rightarrow> rat option"

definition to_datetime_cell :: "coercion \<Rightarrow> cell list \<Rightarrow> cell \<Rightarrow> cell" where
  "to_datetime_cell c col v =
     (case v of
        Null \<Rightarrow> Null
      | Stamp t \<Rightarrow> Stamp t
      | _ \<Rightarrow> (case parse_datetime c col v of None \<Rightarrow> Null | Some t \<Rightarrow> Stamp t))"

definition to_numeric_cell :: "coercion \<Rightarrow> cell \<Rightarrow> cell" where
  "to_numeric_cell c v =
     (case v of
        Null \<Rightarrow> Null
      | Num q \<Rightarrow> Num q
      | _ \<Rightarrow> (case parse_numeric c v of None \<Rightarrow> Null | Some q \<Rightarrow> Num q))"

text \<open>
  \<^verbatim>\<open>pd.to_datetime(None)\<close> is None and \<^verbatim>\<open>pd.to_numeric(None)\<close> is NaN: a scalar null
  in both cases.
\<close>

definition to_datetime :: "coercion \<Rightarrow> cell list option \<Rightarrow> series" where
  "to_datetime c arg =
     (case arg of None \<Rightarrow> Scalar Null | Some col \<Rightarrow> Series (map (to_datetime_cell c col) col))"

definition to_numeric :: "coercion \<Rightarrow> cell list option \<Rightarrow> series" where
  "to_numeric c arg =
     (case arg of None \<Rightarrow> Scalar Null | Some col \<Rightarrow> Series (map (to_numeric_cell c) col))"

text \<open>Lines 110 to 112.\<close>

definition coerce_types :: "coercion \<Rightarrow> frame \<Rightarrow> frame" where
  "coerce_types c df =
     (let df1 = setitem df ''Date'' (to_datetime c (get df ''Date''));
          df2 = setitem df1 ''Units'' (to_numeric c (get df1 ''Units''));
          df3 = setitem df2 ''UnitPrice'' (to_numeric c (get df2 ''UnitPrice''))
      in df3)"

text \<open>
  The product of two numeric columns, cell by cell; a null operand gives a null
  product. After \<open>coerce_types\<close> both columns hold numbers and nulls only.
\<close>

fun mul_cell :: "cell \<Rightarrow> cell \<Rightarrow> cell" where
  "mul_cell (Num a) (Num b) = Num (a * b)"
| "mul_cell _ _ = Null"

text \<open>Line 115.\<close>

definition add_revenue :: "frame \<Rightarrow> error + frame" where
  "add_revenue df =
     bind_err (getitem df ''Units'') (\<lambda>us.
     bind_err (getitem df ''UnitPrice'') (\<lambda>ps.
     Inr (setitem df ''Revenue'' (Series (map2 mul_cell us ps)))))"

text \<open>
  \<^verbatim>\<open>df.dropna(subset=...)\<close> raises KeyError with the labels of the subset that the frame
  does not have; otherwise it keeps the rows that are non-null in every column of the
  subset.
\<close>

definition dropna :: "string list \<Rightarrow> frame \<Rightarrow> error + frame" where
  "dropna cs df =
     (let missing = filter (\<lambda>c. c \<notin> set (labels df)) cs
      in if missing \<noteq> [] then Inl (KeyError missing)
         else Inr (df\<lparr>rows := filter (\<lambda>r. list_all (\<lambda>c. cell_of r c \<noteq> Null) cs) (rows df)\<rparr>))"

definition required :: "string list" where
  "required = [''Date'', ''Product'', ''Region'', ''Units'', ''UnitPrice'']"

text \<open>Lines 110 to 118.\<close>

definition normalizer :: "coercion \<Rightarrow> frame \<Rightarrow> error + frame" where
  "normalizer c df = bind_err (add_revenue (coerce_types c df)) (dropna required)"

section \<open>Filter widgets: lines 128 to 157\<close>

text \<open>
  Python's \<^verbatim>\<open>sorted\<close> raises TypeError as soon as it compares a number with a text or
  with a point in time, which it must do when the list holds more than one kind of
  value. Within a kind the order is the natural one (texts by code point). Across
  kinds \<open>cell_key\<close> fixes an order that \<open>py_sorted\<close> never uses.
\<close>

definition cell_key :: "cell \<Rightarrow> nat \<times> rat \<times> string \<times> int" where
  "cell_key v =
     (case v of
        Null \<Rightarrow> (0, 0, [], 0)
      | Num q \<Rightarrow> (1, q, [], 0)
      | Str s \<Rightarrow> (2, 0, s, 0)
      | Stamp t \<Rightarrow> (3, 0, [], t))"

definition kind :: "cell \<Rightarrow> nat" where
  "kind v = fst (cell_key v)"

definition py_sorted :: "cell list \<Rightarrow> error + cell list" where
  "py_sorted xs =
     (case xs of
        [] \<Rightarrow> Inr []
      | x # _ \<Rightarrow> if list_all (\<lambda>y. kind y = kind x) xs then Inr (sort_key cell_key xs)
                else Inl TypeError)"

text \<open>\<^verbatim>\<open>Series.dropna()\<close> and \<^verbatim>\<open>Series.unique()\<close>: the values in order of first appearance.\<close>

definition series_dropna :: "cell list \<Rightarrow> cell list" where
  "series_dropna col = filter (\<lambda>v. v \<noteq> Null) col"

definition unique :: "cell list \<Rightarrow> cell list" where
  "unique col = rev (remdups (rev col))"

text \<open>\<^verbatim>\<open>Series.min()\<close> and \<^verbatim>\<open>Series.max()\<close> of the Date column skip nulls; None stands for NaT.\<close>

definition stamps :: "cell list \<Rightarrow> int list" where
  "stamps col = concat (map (\<lambda>v. case v of Stamp t \<Rightarrow> [t] | _ \<Rightarrow> []) col)"

definition series_min :: "cell list \<Rightarrow> int option" where
  "series_min col = (case stamps col of [] \<Rightarrow> None | t # ts \<Rightarrow> Some (fold min ts t))"

definition series_max :: "cell list \<Rightarrow> int option" where
  "series_max col = (case stamps col of [] \<Rightarrow> None | t # ts \<Rightarrow> Some (fold max ts t))"

text \<open>
  What the user has chosen in the three widgets: the selected regions, the selected
  products, and the tuple of the date input (days since the epoch; while a range is
  being picked it has fewer than two entries).
\<close>

record selection =
  selected_region :: "cell list"
  selected_product :: "cell list"
  date_input :: "int list"

text \<open>
  Lines 128 to 157 give the option lists of the two multiselects and \<^verbatim>\<open>date_range\<close>,
  which is None when the Date column has no valid date and the value of the date input
  otherwise.
\<close>

definition widgets :: "frame \<Rightarrow> selection \<Rightarrow> error + (cell list \<times> cell list \<times> int list option)" where
  "widgets df sel =
     bind_err (getitem df ''Region'') (\<lambda>rs.
     bind_err (py_sorted (unique (series_dropna rs))) (\<lambda>regions.
     bind_err (getitem df ''Product'') (\<lambda>ps.
     bind_err (py_sorted (unique (series_dropna ps))) (\<lambda>products.
     bind_err (getitem df ''Date'') (\<lambda>ds.
     Inr (regions, products,
          (case (series_min ds, series_max ds) of
             (Some _, Some _) \<Rightarrow> Some (date_input sel)
           | _ \<Rightarrow> None)))))))"

section \<open>Filter Engine: lines 159 to 178\<close>

text \<open>\<^verbatim>\<open>df.iloc[0:0]\<close>: the same columns, no rows.\<close>

definition iloc_empty :: "frame \<Rightarrow> frame" where
  "iloc_empty df = df\<lparr>rows := []\<rparr>"

text \<open>Lines 162 to 165.\<close>

definition filter_region :: "selection \<Rightarrow> frame \<Rightarrow> error + frame" where
  "filter_region sel df =
     (if selected_region sel \<noteq> [] then
        bind_err (getitem df ''Region'') (\<lambda>_.
        Inr (df\<lparr>rows := filter (\<lambda>r. cell_of r ''Region'' \<in> set (selected_region sel)) (rows df)\<rparr>))
      else Inr (iloc_empty df))"

text \<open>Lines 167 to 170.\<close>

definition filter_product :: "selection \<Rightarrow> frame \<Rightarrow> error + frame" where
  "filter_product sel df =
     (if selected_product sel \<noteq> [] then
        bind_err (getitem df ''Product'') (\<lambda>_.
        Inr (df\<lparr>rows := filter (\<lambda>r. cell_of r ''Product'' \<in> set (selected_product sel)) (rows df)\<rparr>))
      else Inr (iloc_empty df))"

text \<open>
  \<^verbatim>\<open>pd.to_datetime\<close> of a calendar date is its midnight; \<^verbatim>\<open>pd.Timedelta(days=1)\<close> and
  \<^verbatim>\<open>pd.Timedelta(seconds=1)\<close> in nanoseconds.
\<close>

definition day_start :: "int \<Rightarrow> int" where
  "day_start d = d * 86400000000000"

definition one_day :: int where
  "one_day = 86400000000000"

definition one_second :: int where
  "one_second = 1000000000"

text \<open>A comparison with a null date is False, so the row is not kept.\<close>

definition in_range :: "int \<Rightarrow> int \<Rightarrow> cell \<Rightarrow> bool" where
  "in_range start_date end_date v =
     (case v of Stamp t \<Rightarrow> start_date \<le> t \<and> t \<le> end_date | _ \<Rightarrow> False)"

text \<open>Lines 172 to 175.\<close>

definition filter_date :: "int list option \<Rightarrow> frame \<Rightarrow> error + frame" where
  "filter_date date_range df =
     (case date_range of
        Some [d1, d2] \<Rightarrow>
          (let start_date = day_start d1;
               end_date = day_start d2 + one_day - one_second
           in bind_err (getitem df ''Date'') (\<lambda>_.
              Inr (df\<lparr>rows := filter (\<lambda>r. in_range start_date end_date (cell_of r ''Date'')) (rows df)\<rparr>)))
      | _ \<Rightarrow> Inr df)"

text \<open>Lines 160 to 175 give \<^verbatim>\<open>df_filtered\<close>, line 178 gives \<^verbatim>\<open>df_clean\<close>.\<close>

definition apply_filters :: "selection \<Rightarrow> int list option \<Rightarrow> frame \<Rightarrow> error + frame" where
  "apply_filters sel date_range df =
     bind_err (filter_region sel df) (\<lambda>df1.
     bind_err (filter_product sel df1) (\<lambda>df2.
     filter_date date_range df2))"

definition filter_engine :: "selection \<Rightarrow> int list option \<Rightarrow> frame \<Rightarrow> error + frame" where
  "filter_engine sel date_range df =
     bind_err (apply_filters sel date_range df) (dropna [''Revenue''])"

text \<open>Lines 110 to 178: from the loaded table and the state of the widgets to \<^verbatim>\<open>df_clean\<close>.\<close>

definition pipeline :: "coercion \<Rightarrow> frame \<Rightarrow> selection \<Rightarrow> error + frame" where
  "pipeline c raw sel =
     bind_err (normalizer c raw) (\<lambda>df.
     bind_err (widgets df sel) (\<lambda>(regions, products, date_range).
     filter_engine sel date_range df))"

section \<open>Aggregator: lines 186 to 198 and 255 to 259\<close>

text \<open>
  \<^verbatim>\<open>Series.sum()\<close> skips nulls and is 0 for an empty column; \<^verbatim>\<open>Series.mean()\<close> skips
  nulls and is NaN (here None) when no number is left.
\<close>

definition nums :: "cell list \<Rightarrow> rat list" where
  "nums col = concat (map (\<lambda>v. case v of Num q \<Rightarrow> [q] | _ \<Rightarrow> []) col)"

definition series_sum :: "cell list \<Rightarrow> rat" where
  "series_sum col = sum_list (nums col)"

definition series_mean :: "cell list \<Rightarrow> rat option" where
  "series_mean col =
     (if nums col = [] then None else Some (sum_list (nums col) / of_nat (length (nums col))))"

definition total_revenue :: "frame \<Rightarrow> error + rat" where
  "total_revenue df = bind_err (getitem df ''Revenue'') (\<lambda>col. Inr (series_sum col))"

definition total_units :: "frame \<Rightarrow> error + rat" where
  "total_units df = bind_err (getitem df ''Units'') (\<lambda>col. Inr (series_sum col))"

definition avg_unit_price :: "frame \<Rightarrow> error + rat option" where
  "avg_unit_price df = bind_err (getitem df ''UnitPrice'') (\<lambda>col. Inr (series_mean col))"

text \<open>
  \<^verbatim>\<open>df.groupby(k)[v].sum()\<close>: one entry per non-null value of column \<open>k\<close>, the entries
  sorted by that value, each with the sum of column \<open>v\<close> over its rows.
\<close>

definition groupby_sum :: "frame \<Rightarrow> string \<Rightarrow> string \<Rightarrow> error + (cell \<times> rat) list" where
  "groupby_sum df k v =
     bind_err (getitem df k) (\<lambda>ks.
     bind_err (getitem df v) (\<lambda>_.
     Inr (map (\<lambda>g. (g, series_sum (column (df\<lparr>rows := filter (\<lambda>r. cell_of r k = g) (rows df)\<rparr>) v)))
            (sort_key cell_key (unique (series_dropna ks))))))"

text \<open>
  \<^verbatim>\<open>sort_values(ascending=False)\<close>: by descending sum. pandas reverses the series,
  sorts it in ascending order and reverses the result, so under a stable sort entries
  with equal sums keep their order. The default algorithm of pandas does not promise
  stability for a long series; the model is the stable sort.
\<close>

definition sort_values_desc :: "(cell \<times> rat) list \<Rightarrow> (cell \<times> rat) list" where
  "sort_values_desc gs = sort_key (\<lambda>(g, s). - s) gs"

text \<open>Lines 191 to 198. The placeholder of line 197 is an em dash, three bytes in UTF-8.\<close>

definition top_product_series :: "frame \<Rightarrow> error + (cell \<times> rat) list" where
  "top_product_series df =
     bind_err (groupby_sum df ''Product'' ''Revenue'') (\<lambda>gs. Inr (sort_values_desc gs))"

definition em_dash :: string where
  "em_dash = [CHR 0xE2, CHR 0x80, CHR 0x94]"

definition top_product :: "frame \<Rightarrow> error + (cell \<times> rat)" where
  "top_product df =
     bind_err (top_product_series df) (\<lambda>series.
     Inr (case series of [] \<Rightarrow> (Str em_dash, 0) | (g, s) # _ \<Rightarrow> (g, s)))"

text \<open>Lines 255 to 259.\<close>

definition rev_by_region :: "frame \<Rightarrow> error + (cell \<times> rat) list" where
  "rev_by_region df =
     bind_err (groupby_sum df ''Region'' ''Revenue'') (\<lambda>gs. Inr (sort_values_desc gs))"

section \<open>KPI tiles: lines 205 to 215\<close>

text \<open>
  The format \<^verbatim>\<open>,.0f\<close> of a NaN is the text \<^verbatim>\<open>nan\<close>. How a number is written with
  thousands separators is left to the parameter \<open>digits\<close>.
\<close>

definition format_money :: "(rat \<Rightarrow> string) \<Rightarrow> rat option \<Rightarrow> string" where
  "format_money digits v = ''$'' @ (case v of None \<Rightarrow> ''nan'' | Some q \<Rightarrow> digits q)"

text \<open>Lines 211 to 212: the text of the tile Average Unit Price.\<close>

definition avg_unit_price_tile :: "(rat \<Rightarrow> string) \<Rightarrow> frame \<Rightarrow> error + string" where
  "avg_unit_price_tile digits df =
     bind_err (avg_unit_price df) (\<lambda>a. Inr (format_money digits a))"

section \<open>The row test of the date filter\<close>

text \<open>Lines 172 to 175 keep a row exactly when \<open>date_pred\<close> holds for it.\<close>

definition date_pred :: "int list option \<Rightarrow> row \<Rightarrow> bool" where
  "date_pred date_range r =
     (case date_range of
        Some [d1, d2] \<Rightarrow> in_range (day_start d1) (day_start d2 + one_day - one_second) (cell_of r ''Date'')
      | _ \<Rightarrow> True)"

section \<open>Example tables\<close>

text \<open>A reader of dates and numbers that understands no text at all.\<close>

definition plain :: coercion where
  "plain = \<lparr>parse_datetime = (\<lambda>col v. None), parse_numeric = (\<lambda>v. None)\<rparr>"

text \<open>
  Two sales with a Revenue column that disagrees with Units and UnitPrice; the second
  sale has a text where the units should be.
\<close>

definition sales :: frame where
  "sales =
     \<lparr>labels = [''Date'', ''Product'', ''Region'', ''Units'', ''UnitPrice'', ''Revenue''],
      rows = [[''Date'' \<mapsto> Stamp 0, ''Product'' \<mapsto> Str ''A'', ''Region'' \<mapsto> Str ''East'',
               ''Units'' \<mapsto> Num 3, ''UnitPrice'' \<mapsto> Num 5, ''Revenue'' \<mapsto> Num 999],
              [''Date'' \<mapsto> Stamp 0, ''Product'' \<mapsto> Str ''B'', ''Region'' \<mapsto> Str ''West'',
               ''Units'' \<mapsto> Str ''many'', ''UnitPrice'' \<mapsto> Num 5, ''Revenue'' \<mapsto> Num 7]]\<rparr>"

text \<open>One complete sale in a table that has no Region column.\<close>

definition sales_without_region :: frame where
  "sales_without_region =
     \<lparr>labels = [''Date'', ''Product'', ''Units'', ''UnitPrice''],
      rows = [[''Date'' \<mapsto> Stamp 0, ''Product'' \<mapsto> Str ''A'', ''Units'' \<mapsto> Num 3,
               ''UnitPrice'' \<mapsto> Num 5]]\<rparr>"


text \<open>A selection with no region, and one with every region and product of \<open>sales\<close>.\<close>

definition no_region :: selection where
  "no_region = \<lparr>selected_region = [], selected_product = [Str ''A'', Str ''B''], date_input = [0, 0]\<rparr>"

definition everything :: selection where
  "everything =
     \<lparr>selected_region = [Str ''East'', Str ''West''], selected_product = [Str ''A'', Str ''B''],
      date_input = [0, 0]\<rparr>"


definition region_rows :: frame where
  "region_rows =
     \<lparr>labels = [''Region'', ''Revenue''],
      rows = [[''Region'' \<mapsto> Str ''East'', ''Revenue'' \<mapsto> Num 300],
              [''Region'' \<mapsto> Str ''West'', ''Revenue'' \<mapsto> Num 100],
              [''Region'' \<mapsto> Str ''East'', ''Revenue'' \<mapsto> Num 50]]\<rparr>"

text \<open>
  Two products with the same revenue; the row of product B comes first.
\<close>

definition tied_rows :: frame where
  "tied_rows =
     \<lparr>labels = [''Product'', ''Revenue''],
      rows = [[''Product'' \<mapsto> Str ''B'', ''Revenue'' \<mapsto> Num 100],
              [''Product'' \<mapsto> Str ''A'', ''Revenue'' \<mapsto> Num 100]]\<rparr>"

text \<open>
  Three sales around the end of 2 January 1970, the second day of the epoch: at
  23:59:59, at 23:59:59.5 and at 00:00:01 of the next day.
\<close>

definition last_second :: int where
  "last_second = 172799000000000"

definition last_half_second :: int where
  "last_half_second = 172799500000000"

definition next_day :: int where
  "next_day = 172801000000000"

definition late_sales :: frame where
  "late_sales =
     \<lparr>labels = [''Date'', ''Product''],
      rows = [[''Date'' \<mapsto> Stamp last_second, ''Product'' \<mapsto> Str ''A''],
              [''Date'' \<mapsto> Stamp last_half_second, ''Product'' \<mapsto> Str ''B''],
              [''Date'' \<mapsto> Stamp next_day, ''Product'' \<mapsto> Str ''C'']]\<rparr>"

section \<open>Facts about the pandas calls\<close>

lemma map2_map_same: "map2 f xs (map g xs) = map (\<lambda>x. f x (g x)) xs"
  by (induction xs) auto

lemma map2_map_map: "map2 f (map g xs) (map h xs) = map (\<lambda>x. f (g x) (h x)) xs"
  by (induction xs) auto


lemma set_labels_setitem: "set (labels (setitem df c s)) = insert c (set (labels df))"
  by (auto simp: setitem_def)

lemma rows_setitem_Scalar: "rows (setitem df c (Scalar v)) = map (\<lambda>r. r(c \<mapsto> v)) (rows df)"
  by (simp add: setitem_def)

lemma rows_setitem_Series: "rows (setitem df c (Series (map g (rows df)))) = map (\<lambda>r. r(c \<mapsto> g r)) (rows df)"
  by (simp add: setitem_def map2_map_same)

lemma cell_of_upd: "cell_of (r(c \<mapsto> v)) c' = (if c' = c then v else cell_of r c')"
  by (simp add: cell_of_def)

lemma rows_set_numeric:
  "rows (setitem df l (to_numeric c (get df l))) =
     map (\<lambda>r. r(l \<mapsto> (if l \<in> set (labels df) then to_numeric_cell c (cell_of r l) else Null))) (rows df)"
  by (simp add: to_numeric_def get_def column_def rows_setitem_Scalar rows_setitem_Series [where g = "\<lambda>r. to_numeric_cell c (cell_of r l)", simplified] o_def)

lemma rows_set_datetime:
  "rows (setitem df l (to_datetime c (get df l))) =
     map (\<lambda>r. r(l \<mapsto> (if l \<in> set (labels df) then to_datetime_cell c (column df l) (cell_of r l) else Null))) (rows df)"
  by (simp add: to_datetime_def get_def rows_setitem_Scalar)
     (simp add: column_def setitem_def map2_map_same o_def)

lemma set_labels_coerce: "set (labels (coerce_types c df)) = {''Date'', ''Units'', ''UnitPrice''} \<union> set (labels df)"
  by (auto simp: coerce_types_def Let_def set_labels_setitem)

lemma rows_coerce:
  "rows (coerce_types c df) =
     map (\<lambda>r. r(''Date'' \<mapsto> (if ''Date'' \<in> set (labels df) then to_datetime_cell c (column df ''Date'') (cell_of r ''Date'') else Null),
               ''Units'' \<mapsto> (if ''Units'' \<in> set (labels df) then to_numeric_cell c (cell_of r ''Units'') else Null),
               ''UnitPrice'' \<mapsto> (if ''UnitPrice'' \<in> set (labels df) then to_numeric_cell c (cell_of r ''UnitPrice'') else Null)))
       (rows df)"
  by (simp add: coerce_types_def Let_def rows_set_numeric rows_set_datetime set_labels_setitem cell_of_upd o_def)

lemma bind_err_Inr [simp]: "bind_err (Inr x) f = f x"
  by (simp add: bind_err_def)

lemma bind_err_Inl [simp]: "bind_err (Inl e) f = Inl e"
  by (simp add: bind_err_def)

lemma bind_err_eq_Inr: "bind_err m f = Inr y \<longleftrightarrow> (\<exists>x. m = Inr x \<and> f x = Inr y)"
  by (cases m) auto

lemma add_revenue_Inr:
  assumes "''Units'' \<in> set (labels df)" "''UnitPrice'' \<in> set (labels df)"
  shows "add_revenue df =
    Inr \<lparr>labels = (if ''Revenue'' \<in> set (labels df) then labels df else labels df @ [''Revenue'']),
         rows = map (\<lambda>r. r(''Revenue'' \<mapsto> mul_cell (cell_of r ''Units'') (cell_of r ''UnitPrice''))) (rows df)\<rparr>"
  using assms
  by (simp add: add_revenue_def getitem_def column_def setitem_def map2_map_map map2_map_same o_def)

lemma add_revenue_coerce:
  "\<exists>s. add_revenue (coerce_types c df) = Inr s \<and>
       set (labels s) = {''Date'', ''Units'', ''UnitPrice'', ''Revenue''} \<union> set (labels df) \<and>
       rows s = map (\<lambda>r. r(''Revenue'' \<mapsto> mul_cell (cell_of r ''Units'') (cell_of r ''UnitPrice''))) (rows (coerce_types c df))"
proof -
  have u: "''Units'' \<in> set (labels (coerce_types c df))" and p: "''UnitPrice'' \<in> set (labels (coerce_types c df))"
    by (simp_all add: set_labels_coerce)
  show ?thesis
    unfolding add_revenue_Inr [OF u p] by (auto simp: set_labels_coerce)
qed

lemma dropna_Inr:
  "set cs \<subseteq> set (labels df) \<Longrightarrow>
   dropna cs df = Inr (df\<lparr>rows := filter (\<lambda>r. list_all (\<lambda>c. cell_of r c \<noteq> Null) cs) (rows df)\<rparr>)"
  by (auto simp: dropna_def Let_def filter_empty_conv)

lemma dropna_Inl:
  "\<not> set cs \<subseteq> set (labels df) \<Longrightarrow>
   dropna cs df = Inl (KeyError (filter (\<lambda>c. c \<notin> set (labels df)) cs))"
  by (auto simp: dropna_def Let_def filter_empty_conv)

lemma to_numeric_cell_cases: "to_numeric_cell c v = Null \<or> (\<exists>q. to_numeric_cell c v = Num q)"
  by (auto simp: to_numeric_cell_def split: cell.splits option.splits)

lemma to_datetime_cell_cases: "to_datetime_cell c col v = Null \<or> (\<exists>t. to_datetime_cell c col v = Stamp t)"
  by (auto simp: to_datetime_cell_def split: cell.splits option.splits)


lemma coerced_numeric:
  assumes "r \<in> set (rows (coerce_types c df))"
  shows "(cell_of r ''Units'' = Null \<or> (\<exists>q. cell_of r ''Units'' = Num q)) \<and>
         (cell_of r ''UnitPrice'' = Null \<or> (\<exists>q. cell_of r ''UnitPrice'' = Num q)) \<and>
         (cell_of r ''Date'' = Null \<or> (\<exists>t. cell_of r ''Date'' = Stamp t))"
proof -
  from assms obtain r0 where
    "cell_of r ''Units'' = (if ''Units'' \<in> set (labels df) then to_numeric_cell c (cell_of r0 ''Units'') else Null)"
    "cell_of r ''UnitPrice'' = (if ''UnitPrice'' \<in> set (labels df) then to_numeric_cell c (cell_of r0 ''UnitPrice'') else Null)"
    "cell_of r ''Date'' = (if ''Date'' \<in> set (labels df) then to_datetime_cell c (column df ''Date'') (cell_of r0 ''Date'') else Null)"
    by (auto simp: rows_coerce cell_of_upd)
  then show ?thesis
    using to_numeric_cell_cases [of c "cell_of r0 ''Units''"]
      to_numeric_cell_cases [of c "cell_of r0 ''UnitPrice''"]
      to_datetime_cell_cases [of c "column df ''Date''" "cell_of r0 ''Date''"]
    by (simp split: if_splits)
qed

lemma normalizer_dropna:
  obtains s where "add_revenue (coerce_types c df) = Inr s"
    and "normalizer c df = dropna required s"
    and "set (labels s) = {''Date'', ''Units'', ''UnitPrice'', ''Revenue''} \<union> set (labels df)"
    and "rows s = map (\<lambda>r. r(''Revenue'' \<mapsto> mul_cell (cell_of r ''Units'') (cell_of r ''UnitPrice''))) (rows (coerce_types c df))"
  using add_revenue_coerce [of c df] by (auto simp: normalizer_def)


lemma normalizer_rows:
  assumes "normalizer c df = Inr out"
  obtains s where "add_revenue (coerce_types c df) = Inr s" and "labels out = labels s"
    and "set required \<subseteq> set (labels out)" and "''Revenue'' \<in> set (labels out)"
    and "rows s = map (\<lambda>r. r(''Revenue'' \<mapsto> mul_cell (cell_of r ''Units'') (cell_of r ''UnitPrice''))) (rows (coerce_types c df))"
    and "rows out = filter (\<lambda>r. list_all (\<lambda>c. cell_of r c \<noteq> Null) required) (rows s)"
proof -
  obtain s where s: "add_revenue (coerce_types c df) = Inr s" "normalizer c df = dropna required s"
    "set (labels s) = {''Date'', ''Units'', ''UnitPrice'', ''Revenue''} \<union> set (labels df)"
    "rows s = map (\<lambda>r. r(''Revenue'' \<mapsto> mul_cell (cell_of r ''Units'') (cell_of r ''UnitPrice''))) (rows (coerce_types c df))"
    by (rule normalizer_dropna)
  have sub: "set required \<subseteq> set (labels s)"
  proof (rule ccontr)
    assume n: "\<not> set required \<subseteq> set (labels s)"
    show False using assms s(2) dropna_Inl [OF n] by simp
  qed
  have out: "out = s\<lparr>rows := filter (\<lambda>r. list_all (\<lambda>c. cell_of r c \<noteq> Null) required) (rows s)\<rparr>"
    using assms s(2) dropna_Inr [OF sub] by simp
  show ?thesis
  proof (rule that [of s])
    show "add_revenue (coerce_types c df) = Inr s" by (rule s(1))
    show "labels out = labels s" by (simp add: out)
    show "set required \<subseteq> set (labels out)" using sub by (simp add: out)
    show "''Revenue'' \<in> set (labels out)" using s(3) by (simp add: out)
    show "rows s = map (\<lambda>r. r(''Revenue'' \<mapsto> mul_cell (cell_of r ''Units'') (cell_of r ''UnitPrice''))) (rows (coerce_types c df))"
      by (rule s(4))
    show "rows out = filter (\<lambda>r. list_all (\<lambda>c. cell_of r c \<noteq> Null) required) (rows s)"
      by (simp add: out)
  qed
qed

lemma normalized_row:
  assumes "normalizer c df = Inr out" "r \<in> set (rows out)"
  shows "\<exists>t u p. cell_of r ''Date'' = Stamp t \<and> cell_of r ''Units'' = Num u \<and>
     cell_of r ''UnitPrice'' = Num p \<and> cell_of r ''Revenue'' = Num (u * p) \<and>
     cell_of r ''Product'' \<noteq> Null \<and> cell_of r ''Region'' \<noteq> Null"
proof (rule normalizer_rows [OF assms(1)])
  fix s :: frame
  assume s: "rows s = map (\<lambda>r. r(''Revenue'' \<mapsto> mul_cell (cell_of r ''Units'') (cell_of r ''UnitPrice''))) (rows (coerce_types c df))"
    and out: "rows out = filter (\<lambda>r. list_all (\<lambda>c. cell_of r c \<noteq> Null) required) (rows s)"
  from assms(2) out s obtain r0 where r0: "r0 \<in> set (rows (coerce_types c df))"
    and r: "r = r0(''Revenue'' \<mapsto> mul_cell (cell_of r0 ''Units'') (cell_of r0 ''UnitPrice''))"
    and nn: "list_all (\<lambda>c. cell_of r c \<noteq> Null) required"
    by auto
  from coerced_numeric [OF r0] nn show ?thesis
    by (auto simp: r required_def cell_of_upd)
qed


lemma filter_region_Inr:
  "''Region'' \<in> set (labels df) \<Longrightarrow>
   filter_region sel df =
     Inr (df\<lparr>rows := filter (\<lambda>r. selected_region sel \<noteq> [] \<and> cell_of r ''Region'' \<in> set (selected_region sel)) (rows df)\<rparr>)"
  by (simp add: filter_region_def getitem_def iloc_empty_def)

lemma filter_product_Inr:
  "''Product'' \<in> set (labels df) \<Longrightarrow>
   filter_product sel df =
     Inr (df\<lparr>rows := filter (\<lambda>r. selected_product sel \<noteq> [] \<and> cell_of r ''Product'' \<in> set (selected_product sel)) (rows df)\<rparr>)"
  by (simp add: filter_product_def getitem_def iloc_empty_def)

lemma filter_date_Inr:
  "''Date'' \<in> set (labels df) \<Longrightarrow>
   filter_date dr df = Inr (df\<lparr>rows := filter (date_pred dr) (rows df)\<rparr>)"
  by (auto simp: filter_date_def date_pred_def [abs_def] getitem_def Let_def split: option.splits list.splits)

lemma apply_filters_Inr:
  assumes "''Region'' \<in> set (labels df)" "''Product'' \<in> set (labels df)" "''Date'' \<in> set (labels df)"
  shows "apply_filters sel dr df =
     Inr (df\<lparr>rows := filter (\<lambda>r. (selected_region sel \<noteq> [] \<and> cell_of r ''Region'' \<in> set (selected_region sel)) \<and>
                                (selected_product sel \<noteq> [] \<and> cell_of r ''Product'' \<in> set (selected_product sel)) \<and>
                                date_pred dr r) (rows df)\<rparr>)"
  using assms
  by (simp add: apply_filters_def filter_region_Inr filter_product_Inr filter_date_Inr conj_commute conj_left_commute)


lemma filter_engine_Inr:
  assumes "''Region'' \<in> set (labels df)" "''Product'' \<in> set (labels df)" "''Date'' \<in> set (labels df)"
    "''Revenue'' \<in> set (labels df)"
  shows "filter_engine sel dr df =
     Inr (df\<lparr>rows := filter (\<lambda>r. cell_of r ''Revenue'' \<noteq> Null)
            (filter (\<lambda>r. (selected_region sel \<noteq> [] \<and> cell_of r ''Region'' \<in> set (selected_region sel)) \<and>
                         (selected_product sel \<noteq> [] \<and> cell_of r ''Product'' \<in> set (selected_product sel)) \<and>
                         date_pred dr r) (rows df))\<rparr>)"
  using assms by (simp add: filter_engine_def apply_filters_Inr dropna_Inr)

lemma normalizer_labels:
  assumes "normalizer c raw = Inr df"
  shows "''Region'' \<in> set (labels df)" "''Product'' \<in> set (labels df)" "''Date'' \<in> set (labels df)"
    "''Units'' \<in> set (labels df)" "''UnitPrice'' \<in> set (labels df)" "''Revenue'' \<in> set (labels df)"
proof -
  have "set required \<subseteq> set (labels df) \<and> ''Revenue'' \<in> set (labels df)"
    by (rule normalizer_rows [OF assms]) simp
  then show "''Region'' \<in> set (labels df)" "''Product'' \<in> set (labels df)" "''Date'' \<in> set (labels df)"
    "''Units'' \<in> set (labels df)" "''UnitPrice'' \<in> set (labels df)" "''Revenue'' \<in> set (labels df)"
    by (simp_all add: required_def)
qed





lemma set_unique: "set (unique xs) = set xs"
  by (simp add: unique_def)

lemma distinct_unique: "distinct (unique xs)"
  by (simp add: unique_def)

lemma groupby_sum_Inr:
  assumes "k \<in> set (labels df)" "v \<in> set (labels df)"
  shows "groupby_sum df k v =
     Inr (map (\<lambda>g. (g, series_sum (column (df\<lparr>rows := filter (\<lambda>r. cell_of r k = g) (rows df)\<rparr>) v)))
            (sort_key cell_key (unique (series_dropna (column df k)))))"
  using assms by (simp add: groupby_sum_def getitem_def)

lemma groupby_sum_facts:
  assumes "groupby_sum df k v = Inr gs"
  shows "distinct (map fst gs)"
    and "set (map fst gs) = set (column df k) - {Null}"
    and "\<And>g s. (g, s) \<in> set gs \<Longrightarrow> s = series_sum (column (df\<lparr>rows := filter (\<lambda>r. cell_of r k = g) (rows df)\<rparr>) v)"
proof -
  have gs: "gs = map (\<lambda>g. (g, series_sum (column (df\<lparr>rows := filter (\<lambda>r. cell_of r k = g) (rows df)\<rparr>) v)))
            (sort_key cell_key (unique (series_dropna (column df k))))"
    using assms by (auto simp: groupby_sum_def getitem_def split: if_splits)
  show "distinct (map fst gs)"
    by (simp add: gs o_def distinct_unique)
  show "set (map fst gs) = set (column df k) - {Null}"
    by (auto simp: gs o_def set_unique series_dropna_def)
  show "s = series_sum (column (df\<lparr>rows := filter (\<lambda>r. cell_of r k = g) (rows df)\<rparr>) v)" if "(g, s) \<in> set gs" for g s
    using that by (auto simp: gs)
qed

lemma sort_values_desc_facts:
  "set (sort_values_desc gs) = set gs"
  "distinct (map fst (sort_values_desc gs)) = distinct (map fst gs)"
  "sorted_wrt (\<lambda>a b. snd b \<le> snd a) (sort_values_desc gs)"
proof -
  show "set (sort_values_desc gs) = set gs" by (simp add: sort_values_desc_def)
  have "mset (map fst (sort_values_desc gs)) = mset (map fst gs)"
    by (simp add: sort_values_desc_def)
  then show "distinct (map fst (sort_values_desc gs)) = distinct (map fst gs)"
    by (metis distinct_count_atmost_1 set_mset_mset)
  have "sorted (map (\<lambda>(g, s). - s) (sort_values_desc gs))"
    unfolding sort_values_desc_def by (rule sorted_sort_key)
  then show "sorted_wrt (\<lambda>a b. snd b \<le> snd a) (sort_values_desc gs)"
    by (simp add: sorted_map sorted_wrt_iff_nth_less case_prod_beta)
qed

lemma filter_date_rows:
  assumes "''Date'' \<in> set (labels df)"
  shows "\<exists>out. filter_date (Some [d1, d2]) df = Inr out \<and> labels out = labels df \<and>
     rows out = filter (\<lambda>r. \<exists>t. cell_of r ''Date'' = Stamp t \<and> day_start d1 \<le> t \<and>
                              t \<le> day_start d2 + 86399 * one_second) (rows df)"
proof -
  have "in_range (day_start d1) (day_start d2 + one_day - one_second) v =
      (\<exists>t. v = Stamp t \<and> day_start d1 \<le> t \<and> t \<le> day_start d2 + 86399 * one_second)" for v
    by (cases v) (auto simp: in_range_def one_day_def one_second_def)
  then show ?thesis
    using assms by (simp add: filter_date_Inr date_pred_def [abs_def])
qed

lemmas tables = get_def getitem_def column_def cell_of_def setitem_def Let_def

lemmas evaluate =
  normalizer_def coerce_types_def to_datetime_def to_numeric_def add_revenue_def dropna_def
  required_def to_datetime_cell_def to_numeric_cell_def plain_def

lemmas filtering =
  pipeline_def widgets_def py_sorted_def kind_def series_min_def series_max_def stamps_def
  filter_engine_def apply_filters_def filter_region_def filter_product_def filter_date_def
  iloc_empty_def in_range_def day_start_def one_day_def one_second_def series_dropna_def
  unique_def cell_key_def

lemmas aggregate =
  top_product_def top_product_series_def rev_by_region_def groupby_sum_def sort_values_desc_def
  series_dropna_def unique_def series_sum_def nums_def cell_key_def


lemma rev_by_region_example: "rev_by_region region_rows = Inr [(Str ''East'', 350), (Str ''West'', 100)]"
  by (simp add: region_rows_def tables aggregate)

lemma pipeline_output:
  assumes "pipeline c raw sel = Inr df"
  shows "{''Date'', ''Product'', ''Region'', ''Units'', ''UnitPrice'', ''Revenue''} \<subseteq> set (labels df)"
    and "\<forall>r\<in>set (rows df). cell_of r ''Product'' \<noteq> Null \<and> cell_of r ''Region'' \<noteq> Null \<and>
           cell_of r ''Revenue'' \<noteq> Null"
proof -
  from assms obtain df0 w where df0: "normalizer c raw = Inr df0"
    and w: "widgets df0 sel = Inr w" and fe: "filter_engine sel (snd (snd w)) df0 = Inr df"
    by (auto simp: pipeline_def bind_err_eq_Inr split: prod.splits)
  note l = normalizer_labels [OF df0]
  from fe l have df: "labels df = labels df0" "set (rows df) \<subseteq> set (rows df0)"
    by (auto simp: filter_engine_Inr)
  show "{''Date'', ''Product'', ''Region'', ''Units'', ''UnitPrice'', ''Revenue''} \<subseteq> set (labels df)"
    using l df(1) by simp
  show "\<forall>r\<in>set (rows df). cell_of r ''Product'' \<noteq> Null \<and> cell_of r ''Region'' \<noteq> Null \<and>
           cell_of r ''Revenue'' \<noteq> Null"
  proof
    fix r assume "r \<in> set (rows df)"
    with df(2) have "r \<in> set (rows df0)" by blast
    from normalized_row [OF df0 this] show "cell_of r ''Product'' \<noteq> Null \<and> cell_of r ''Region'' \<noteq> Null \<and>
           cell_of r ''Revenue'' \<noteq> Null" by auto
  qed
qed



text \<open>
  With equal sums the product that comes first in the grouped series wins, and the
  grouped series is in the order of the product names, not of the rows.
\<close>

lemma top_product_tie: "top_product tied_rows = Inr (Str ''A'', 100)"
  by (simp add: tied_rows_def tables aggregate)

lemma sales_pipeline_no_region:
  "\<exists>df. pipeline plain sales no_region = Inr df \<and> rows df = [] \<and>
     labels df = [''Date'', ''Product'', ''Region'', ''Units'', ''UnitPrice'', ''Revenue'']"
  by (simp add: sales_def no_region_def tables evaluate filtering)

lemma sales_pipeline_everything:
  "\<exists>df. pipeline plain sales everything = Inr df \<and> column df ''Revenue'' = [Num 15]"
  by (simp add: sales_def everything_def tables evaluate filtering)

text \<open>
  Of the three late sales the range from 1 to 2 January 1970 keeps the one at 23:59:59
  only.
\<close>

lemma late_sales_filtered:
  "\<exists>out. filter_date (Some [0, 1]) late_sales = Inr out \<and> column out ''Product'' = [Str ''A'']"
  by (simp add: late_sales_def last_second_def last_half_second_def next_day_def tables filtering)

lemma sales_normalized:
  "\<exists>df. normalizer plain sales = Inr df \<and> column df ''Product'' = [Str ''A''] \<and>
     column df ''Units'' = [Num 3] \<and> column df ''UnitPrice'' = [Num 5] \<and>
     column df ''Revenue'' = [Num 15]"
  by (simp add: sales_def tables evaluate)

lemma sales_without_region_raises:
  "normalizer plain sales_without_region = Inl (KeyError [''Region''])"
  by (simp add: sales_without_region_def tables evaluate)

section \<open>The claims\<close>

subsection \<open>C1: a table without a Region column\<close>

text \<open>
  C1 says that a raw table without a Region column loses every row in the completeness
  check and ends as an empty table, not in a crash. The code does not do that: for
  every table without the label Region, line 118 raises KeyError, and Region is among
  the labels the error names. No table is produced. (Lines 110 to 112 do create a
  missing Date, Units or UnitPrice column; nothing creates a missing Region.)
\<close>

theorem C1_missing_region_raises:
  assumes "''Region'' \<notin> set (labels df)"
  shows "\<exists>ms. normalizer c df = Inl (KeyError ms) \<and> ''Region'' \<in> set ms"
proof -
  obtain s where s: "normalizer c df = dropna required s"
    "set (labels s) = {''Date'', ''Units'', ''UnitPrice'', ''Revenue''} \<union> set (labels df)"
    by (rule normalizer_dropna)
  have n: "\<not> set required \<subseteq> set (labels s)"
    using assms s(2) by (auto simp: required_def)
  show ?thesis
    using assms s dropna_Inl [OF n] by (auto simp: required_def)
qed

theorem C1_missing_region_raises_witness:
  "''Region'' \<notin> set (labels sales_without_region) \<and> rows sales_without_region \<noteq> [] \<and>
   (\<exists>ms. normalizer plain sales_without_region = Inl (KeyError ms) \<and> ''Region'' \<in> set ms)"
proof -
  have h: "''Region'' \<notin> set (labels sales_without_region)"
    by (simp add: sales_without_region_def)
  have "rows sales_without_region \<noteq> []"
    by (simp add: sales_without_region_def)
  with h C1_missing_region_raises [OF h, of plain] show ?thesis by blast
qed

subsection \<open>C2: Revenue is recomputed\<close>



subsection \<open>C3: an empty selection\<close>

text \<open>
  C3: for every cleaned table (a result of the Normalizer) and every selection in which
  no region is selected, or no product, the Filter Engine returns a table with no rows,
  whatever the other filters and the date range are.
\<close>

theorem C3_empty_selection_gives_no_rows:
  assumes "normalizer c raw = Inr df"
    and "selected_region sel = [] \<or> selected_product sel = []"
  shows "\<exists>out. filter_engine sel date_range df = Inr out \<and> rows out = []"
  using assms(2) normalizer_labels [OF assms(1)]
  by (auto simp: filter_engine_Inr)

theorem C3_empty_selection_gives_no_rows_witness:
  "\<exists>df out. normalizer plain sales = Inr df \<and> column df ''Revenue'' = [Num 15] \<and>
     selected_region no_region = [] \<and>
     filter_engine no_region (Some [0, 0]) df = Inr out \<and> rows out = []"
proof -
  obtain df where df: "normalizer plain sales = Inr df" "column df ''Revenue'' = [Num 15]"
    using sales_normalized by blast
  have e: "selected_region no_region = []"
    by (simp add: no_region_def)
  then have "selected_region no_region = [] \<or> selected_product no_region = []" ..
  from C3_empty_selection_gives_no_rows [OF df(1) this, of "Some [0, 0]"] df e
  show ?thesis by blast
qed

subsection \<open>C4: the end of the date range\<close>

text \<open>
  C4 says that with a range from D1 to D2 every row dated within D2 is retained and
  every row dated after D2 is excluded. Line 174 puts the end of the range at 23:59:59
  of D2, one second before the next midnight, and line 175 keeps a row whose date is
  not later than that. A row dated 23:59:59 on D2 is retained and a row dated after D2
  is excluded (\<open>filter_date_rows\<close>, \<open>late_sales_filtered\<close>), but the code does not
  retain every row dated within D2: for every table and every range, a row dated
  within the last second of D2, after 23:59:59, is dropped.
\<close>

theorem C4_last_second_of_end_date_dropped:
  assumes "''Date'' \<in> set (labels df)" "r \<in> set (rows df)" "cell_of r ''Date'' = Stamp t"
    and "day_start d2 + one_day - one_second < t" "t < day_start (d2 + 1)"
  shows "\<exists>out. filter_date (Some [d1, d2]) df = Inr out \<and> r \<notin> set (rows out)"
  using assms
  by (auto simp: filter_date_Inr date_pred_def in_range_def)

theorem C4_last_second_of_end_date_dropped_witness:
  "''Date'' \<in> set (labels late_sales) \<and>
   rows late_sales ! 1 \<in> set (rows late_sales) \<and>
   cell_of (rows late_sales ! 1) ''Date'' = Stamp last_half_second \<and>
   day_start 1 + one_day - one_second < last_half_second \<and> last_half_second < day_start (1 + 1) \<and>
   (\<exists>out. filter_date (Some [0, 1]) late_sales = Inr out \<and> rows late_sales ! 1 \<notin> set (rows out))"
proof -
  have h: "''Date'' \<in> set (labels late_sales)" "rows late_sales ! 1 \<in> set (rows late_sales)"
    "cell_of (rows late_sales ! 1) ''Date'' = Stamp last_half_second"
    "day_start 1 + one_day - one_second < last_half_second" "last_half_second < day_start (1 + 1)"
    by (simp_all add: late_sales_def cell_of_def last_half_second_def day_start_def one_day_def
        one_second_def)
  from h C4_last_second_of_end_date_dropped [OF h, of 0] show ?thesis by blast
qed

subsection \<open>C5: the tiles of an empty table\<close>

text \<open>
  C5: for the empty filtered table (no rows, with the columns Revenue, Units and
  UnitPrice that every filtered table has) the total revenue is 0, the total of units
  is 0, the average unit price is computed without an error and is the sentinel NaN
  (here None), and the text of its tile is rendered without an error, as \<^verbatim>\<open>$nan\<close>.
\<close>

theorem C5_kpis_of_empty_table:
  assumes "rows df = []"
    and "''Revenue'' \<in> set (labels df)" "''Units'' \<in> set (labels df)" "''UnitPrice'' \<in> set (labels df)"
  shows "total_revenue df = Inr 0 \<and> total_units df = Inr 0 \<and> avg_unit_price df = Inr None \<and>
     avg_unit_price_tile digits df = Inr ''$nan''"
  using assms
  by (simp add: total_revenue_def total_units_def avg_unit_price_def avg_unit_price_tile_def
      format_money_def getitem_def column_def series_sum_def series_mean_def nums_def)

theorem C5_kpis_of_empty_table_witness:
  "\<exists>df. pipeline plain sales no_region = Inr df \<and> rows df = [] \<and>
     total_revenue df = Inr 0 \<and> total_units df = Inr 0 \<and> avg_unit_price df = Inr None \<and>
     avg_unit_price_tile (\<lambda>q. ''0'') df = Inr ''$nan''"
proof -
  obtain df where df: "pipeline plain sales no_region = Inr df" "rows df = []"
    "labels df = [''Date'', ''Product'', ''Region'', ''Units'', ''UnitPrice'', ''Revenue'']"
    using sales_pipeline_no_region by blast
  have "''Revenue'' \<in> set (labels df)" "''Units'' \<in> set (labels df)" "''UnitPrice'' \<in> set (labels df)"
    by (simp_all add: df(3))
  from C5_kpis_of_empty_table [OF df(2) this, of "\<lambda>q. ''0''"] df(1,2) show ?thesis by blast
qed

subsection \<open>C6: the top product\<close>



subsection \<open>C7: revenue by region\<close>

text \<open>
  C7: for every filtered table (it has the columns Region and Revenue, and no row
  without a region), the revenue by region is a list of pairs with one pair for each
  distinct region of the table, each region with the sum of the Revenue over its rows,
  in descending order of the sums. On the rows (East, 300), (West, 100), (East, 50) it
  is (East, 350), (West, 100).
\<close>

theorem C7_revenue_by_region:
  assumes "''Region'' \<in> set (labels df)" "''Revenue'' \<in> set (labels df)"
    and "\<forall>r\<in>set (rows df). cell_of r ''Region'' \<noteq> Null"
  shows "(\<exists>gs. rev_by_region df = Inr gs \<and> distinct (map fst gs) \<and>
       set (map fst gs) = set (column df ''Region'') \<and>
       (\<forall>(g, s)\<in>set gs. s = series_sum (column (df\<lparr>rows := filter (\<lambda>r. cell_of r ''Region'' = g) (rows df)\<rparr>) ''Revenue'')) \<and>
       sorted_wrt (\<lambda>a b. snd b \<le> snd a) gs) \<and>
     rev_by_region region_rows = Inr [(Str ''East'', 350), (Str ''West'', 100)]"
proof -
  obtain gs where gs: "groupby_sum df ''Region'' ''Revenue'' = Inr gs"
    using assms(1,2) by (simp add: groupby_sum_Inr)
  have nn: "Null \<notin> set (column df ''Region'')"
    using assms(3) by (auto simp: column_def)
  have "rev_by_region df = Inr (sort_values_desc gs)"
    by (simp add: rev_by_region_def gs)
  moreover have "distinct (map fst (sort_values_desc gs))"
    by (simp add: sort_values_desc_facts groupby_sum_facts(1) [OF gs])
  moreover have "set (map fst (sort_values_desc gs)) = set (column df ''Region'')"
    using groupby_sum_facts(2) [OF gs] nn by (simp add: sort_values_desc_facts)
  moreover have "\<forall>(g, s)\<in>set (sort_values_desc gs).
      s = series_sum (column (df\<lparr>rows := filter (\<lambda>r. cell_of r ''Region'' = g) (rows df)\<rparr>) ''Revenue'')"
    using groupby_sum_facts(3) [OF gs] by (auto simp: sort_values_desc_facts)
  moreover note sort_values_desc_facts(3) [of gs] rev_by_region_example
  ultimately show ?thesis by blast
qed

theorem C7_revenue_by_region_witness:
  "''Region'' \<in> set (labels region_rows) \<and> ''Revenue'' \<in> set (labels region_rows) \<and>
   list_all (\<lambda>r. cell_of r ''Region'' \<noteq> Null) (rows region_rows) \<and>
   (\<exists>gs. rev_by_region region_rows = Inr gs \<and> distinct (map fst gs) \<and>
      set (map fst gs) = set (column region_rows ''Region'') \<and>
      sorted_wrt (\<lambda>a b. snd b \<le> snd a) gs) \<and>
   rev_by_region region_rows = Inr [(Str ''East'', 350), (Str ''West'', 100)]"
proof -
  have h: "''Region'' \<in> set (labels region_rows)" "''Revenue'' \<in> set (labels region_rows)"
    "\<forall>r\<in>set (rows region_rows). cell_of r ''Region'' \<noteq> Null"
    by (simp_all add: region_rows_def cell_of_def)
  from h(3) have "list_all (\<lambda>r. cell_of r ''Region'' \<noteq> Null) (rows region_rows)"
    by (simp add: list_all_iff)
  with h(1,2) C7_revenue_by_region [OF h] show ?thesis by blast
qed

subsection \<open>C9: the last drop removes nothing\<close>



subsection \<open>C10: a table without a Date, Units or UnitPrice column\<close>



section \<open>Export: line 328\<close>

text \<open>
  Line 328 hands \<^verbatim>\<open>df_clean\<close> to \<^verbatim>\<open>DataFrame.to_csv\<close> and encodes the text as UTF-8.
  The script never reads the file back. How pandas writes a binary floating-point
  number or a point in time as text, and what a reader of the file makes of that text,
  is decided outside the script, so the export has no counterpart in this theory.
\<close>

end
